theory Spec2Isabelle
  imports Main "HOL-Library.Word"
begin

section \<open>JavaScript strings\<close>

text \<open>
  A JavaScript string is a sequence of UTF-16 code units; \<open>s.length\<close> counts code
  units. A literal of the source is written \<open>js ''...''\<close>.
\<close>

type_synonym jsstring = "16 word list"

definition js :: "string \<Rightarrow> jsstring" where
  "js s = map (\<lambda>c. of_nat (of_char c)) s"

text \<open>
  \<open>String.prototype.trim\<close> removes, at both ends, the code units that ECMAScript
  calls WhiteSpace or LineTerminator: TAB, LF, VT, FF, CR, SPACE, NBSP, U+1680,
  U+2000 to U+200A, U+2028, U+2029, U+202F, U+205F, U+3000 and U+FEFF.
\<close>

definition is_js_space :: "16 word \<Rightarrow> bool" where
  "is_js_space c \<longleftrightarrow>
     c \<in> set [0x0009, 0x000A, 0x000B, 0x000C, 0x000D, 0x0020, 0x00A0, 0x1680,
              0x2000, 0x2001, 0x2002, 0x2003, 0x2004, 0x2005, 0x2006, 0x2007,
              0x2008, 0x2009, 0x200A, 0x2028, 0x2029, 0x202F, 0x205F, 0x3000, 0xFEFF]"

definition trim :: "jsstring \<Rightarrow> jsstring" where
  "trim s = rev (dropWhile is_js_space (rev (dropWhile is_js_space s)))"

text \<open>\<open>s.split(',')\<close>: the segments between separators; the empty string gives one empty segment.\<close>

fun split_on :: "'a \<Rightarrow> 'a list \<Rightarrow> 'a list list" where
  "split_on c [] = [[]]"
| "split_on c (x # xs) =
     (if x = c then [] # split_on c xs
      else (case split_on c xs of [] \<Rightarrow> [[x]] | seg # segs \<Rightarrow> (x # seg) # segs))"

section \<open>Shared vocabulary\<close>

text \<open>
  The user-visible messages are Turkish string literals in the source; each is one
  constructor here, named after the literal without its diacritics.
\<close>

datatype message =
    Baslik_zorunludur
  | Baslik_en_az_3_karakter_olmalidir
  | Aciklama_zorunludur
  | Aciklama_en_az_10_karakter_olmalidir
  | Icerik_zorunludur
  | Icerik_en_az_50_karakter_olmalidir
  | Gecerli_bir_URL_giriniz
  | Projeler_yuklenirken_bir_hata_olustu
  | Islem_sirasinda_bir_hata_olustu
  | Silme_islemi_sirasinda_bir_hata_olustu

text \<open>types.ts\<close>

record BlogPost =
  post_id :: jsstring
  post_title :: jsstring
  post_content :: jsstring
  post_date :: jsstring

text \<open>The calls a component makes on its collaborators, in the order they are made.\<close>

datatype call =
    WindowConfirm
  | StorageGetItem jsstring
  | StorageSetItem jsstring jsstring
  | ApiGetAll
  | ApiCreate
  | ApiUpdate jsstring
  | ApiDelete jsstring
  | ConsoleError

datatype exception = SyntaxError

section \<open>AdminBlog\<close>

record BlogFormData =
  bf_title :: jsstring
  bf_content :: jsstring

record BlogFormErrors =
  be_title :: "message option"
  be_content :: "message option"

text \<open>
  The component's four \<open>useState\<close> cells, the browser's \<open>localStorage\<close> and the log
  of calls made on the browser.
\<close>

record AdminBlog =
  posts :: "BlogPost list"
  editingPost :: "BlogPost option"
  blogFormData :: BlogFormData
  blogFormErrors :: BlogFormErrors
  localStorage :: "jsstring \<rightharpoonup> jsstring"
  blogCalls :: "call list"

text \<open>
  What the component takes from the JavaScript runtime: \<open>JSON.parse\<close> (\<open>None\<close> when
  it throws SyntaxError; a text it accepts is taken to be an array of posts, as
  the component's \<open>BlogPost[]\<close> state assumes), \<open>JSON.stringify\<close>, and the two
  clock readings \<open>Date.now().toString()\<close> and \<open>new Date().toISOString()\<close>.
\<close>

record BlogRuntime =
  JSON_parse :: "jsstring \<Rightarrow> BlogPost list option"
  JSON_stringify :: "BlogPost list \<Rightarrow> jsstring"
  Date_now_toString :: jsstring
  new_Date_toISOString :: jsstring

definition blogPosts_key :: jsstring where
  "blogPosts_key = js ''blogPosts''"

definition AdminBlog_init :: "(jsstring \<rightharpoonup> jsstring) \<Rightarrow> AdminBlog" where
  "AdminBlog_init storage =
     \<lparr>posts = [], editingPost = None,
      blogFormData = \<lparr>bf_title = [], bf_content = []\<rparr>,
      blogFormErrors = \<lparr>be_title = None, be_content = None\<rparr>,
      localStorage = storage, blogCalls = []\<rparr>"

text \<open>
  The mount effect: \<open>getItem\<close>, then \<open>JSON.parse\<close> when the stored value is truthy
  (neither \<open>null\<close> nor the empty string). The parse is not inside any \<open>try\<close>.
\<close>

definition AdminBlog_mount :: "BlogRuntime \<Rightarrow> AdminBlog \<Rightarrow> exception + AdminBlog" where
  "AdminBlog_mount rt w =
     (let w1 = w\<lparr>blogCalls := blogCalls w @ [StorageGetItem blogPosts_key]\<rparr> in
      case localStorage w blogPosts_key of
        None \<Rightarrow> Inr w1
      | Some storedPosts \<Rightarrow>
          if storedPosts = [] then Inr w1
          else (case JSON_parse rt storedPosts of
                  None \<Rightarrow> Inl SyntaxError
                | Some parsed \<Rightarrow> Inr (w1\<lparr>posts := parsed\<rparr>)))"

definition AdminBlog_errors :: "BlogFormData \<Rightarrow> BlogFormErrors" where
  "AdminBlog_errors d =
     \<lparr>be_title =
        (if trim (bf_title d) = [] then Some Baslik_zorunludur
         else if length (bf_title d) < 3 then Some Baslik_en_az_3_karakter_olmalidir
         else None),
      be_content =
        (if trim (bf_content d) = [] then Some Icerik_zorunludur
         else if length (bf_content d) < 50 then Some Icerik_en_az_50_karakter_olmalidir
         else None)\<rparr>"

text \<open>\<open>Object.keys(errors).length === 0\<close>: no key was assigned.\<close>

definition blog_no_errors :: "BlogFormErrors \<Rightarrow> bool" where
  "blog_no_errors e \<longleftrightarrow> be_title e = None \<and> be_content e = None"

definition AdminBlog_validateForm :: "AdminBlog \<Rightarrow> bool \<times> AdminBlog" where
  "AdminBlog_validateForm w =
     (let errors = AdminBlog_errors (blogFormData w)
      in (blog_no_errors errors, w\<lparr>blogFormErrors := errors\<rparr>))"

definition AdminBlog_resetForm :: "AdminBlog \<Rightarrow> AdminBlog" where
  "AdminBlog_resetForm w =
     w\<lparr>editingPost := None, blogFormData := \<lparr>bf_title = [], bf_content = []\<rparr>\<rparr>"

text \<open>\<open>a || b\<close> on strings: \<open>b\<close> when \<open>a\<close> is missing or the empty string.\<close>

definition or_else :: "jsstring option \<Rightarrow> jsstring \<Rightarrow> jsstring" where
  "or_else a b = (case a of None \<Rightarrow> b | Some s \<Rightarrow> if s = [] then b else s)"

definition AdminBlog_newPost :: "BlogRuntime \<Rightarrow> AdminBlog \<Rightarrow> BlogPost" where
  "AdminBlog_newPost rt w =
     \<lparr>post_id = or_else (map_option post_id (editingPost w)) (Date_now_toString rt),
      post_title = bf_title (blogFormData w),
      post_content = bf_content (blogFormData w),
      post_date = or_else (map_option post_date (editingPost w)) (new_Date_toISOString rt)\<rparr>"

definition AdminBlog_handleSubmit :: "BlogRuntime \<Rightarrow> AdminBlog \<Rightarrow> AdminBlog" where
  "AdminBlog_handleSubmit rt w =
     (case AdminBlog_validateForm w of
        (False, w1) \<Rightarrow> w1
      | (True, w1) \<Rightarrow>
          let newPost = AdminBlog_newPost rt w;
              updatedPosts =
                (case editingPost w of
                   Some e \<Rightarrow> map (\<lambda>p. if post_id p = post_id e then newPost else p) (posts w)
                 | None \<Rightarrow> posts w @ [newPost]);
              encoded = JSON_stringify rt updatedPosts
          in AdminBlog_resetForm
               (w1\<lparr>posts := updatedPosts,
                   localStorage := (localStorage w1)(blogPosts_key \<mapsto> encoded),
                   blogCalls := blogCalls w1 @ [StorageSetItem blogPosts_key encoded]\<rparr>))"

definition AdminBlog_handleEdit :: "BlogPost \<Rightarrow> AdminBlog \<Rightarrow> AdminBlog" where
  "AdminBlog_handleEdit post w =
     w\<lparr>editingPost := Some post,
       blogFormData := \<lparr>bf_title = post_title post, bf_content = post_content post\<rparr>\<rparr>"

definition AdminBlog_handleDelete :: "BlogRuntime \<Rightarrow> jsstring \<Rightarrow> AdminBlog \<Rightarrow> AdminBlog" where
  "AdminBlog_handleDelete rt i w =
     (let updatedPosts = filter (\<lambda>p. post_id p \<noteq> i) (posts w);
          encoded = JSON_stringify rt updatedPosts
      in w\<lparr>posts := updatedPosts,
           localStorage := (localStorage w)(blogPosts_key \<mapsto> encoded),
           blogCalls := blogCalls w @ [StorageSetItem blogPosts_key encoded]\<rparr>)"

text \<open>The two \<open>onChange\<close> handlers of the form; \<open>v\<close> is \<open>e.target.value\<close>.\<close>

definition AdminBlog_onChange_title :: "jsstring \<Rightarrow> AdminBlog \<Rightarrow> AdminBlog" where
  "AdminBlog_onChange_title v w =
     w\<lparr>blogFormData := (blogFormData w)\<lparr>bf_title := v\<rparr>,
       blogFormErrors := (blogFormErrors w)\<lparr>be_title := None\<rparr>\<rparr>"

definition AdminBlog_onChange_content :: "jsstring \<Rightarrow> AdminBlog \<Rightarrow> AdminBlog" where
  "AdminBlog_onChange_content v w =
     w\<lparr>blogFormData := (blogFormData w)\<lparr>bf_content := v\<rparr>\<rparr>"

text \<open>
  The data model of a stored post: the id is a token derived from the creation
  time and the date a timestamp, so neither is the empty string.
\<close>

definition stamped :: "BlogPost list \<Rightarrow> bool" where
  "stamped ps \<longleftrightarrow> list_all (\<lambda>p. post_id p \<noteq> [] \<and> post_date p \<noteq> []) ps"

section \<open>AdminProjects\<close>

text \<open>types.ts; \<open>image\<close> and \<open>link\<close> are optional.\<close>

record Project =
  project_id :: jsstring
  project_title :: jsstring
  project_description :: jsstring
  project_image :: "jsstring option"
  project_link :: "jsstring option"
  project_date :: jsstring
  project_tags :: "jsstring list"

record ProjectFormData =
  pf_title :: jsstring
  pf_description :: jsstring
  pf_image :: jsstring
  pf_link :: jsstring
  pf_tags :: "jsstring list"

record ProjectFormErrors =
  pe_title :: "message option"
  pe_description :: "message option"
  pe_image :: "message option"
  pe_link :: "message option"

text \<open>
  The component's six \<open>useState\<close> cells, the state \<open>'r\<close> of the remote project
  service and the log of calls made on the browser and on the service.
\<close>

record 'r AdminProjects =
  projects :: "Project list"
  editingProject :: "Project option"
  loading :: bool
  error :: "message option"
  formData :: ProjectFormData
  formErrors :: ProjectFormErrors
  remote :: 'r
  calls :: "call list"

text \<open>
  The module \<open>services/api\<close> and the browser's \<open>URL\<close> constructor are not part of
  the sources at hand, so they are parameters. Each service operation maps the
  remote state to a result and a new remote state; \<open>None\<close> or \<open>False\<close> is a rejected
  promise. \<open>new_URL_ok url\<close> holds when \<open>new URL(url)\<close> does not throw.
\<close>

record 'r ProjectsRuntime =
  api_getAll :: "'r \<Rightarrow> Project list option \<times> 'r"
  api_create :: "ProjectFormData \<Rightarrow> 'r \<Rightarrow> bool \<times> 'r"
  api_update :: "jsstring \<Rightarrow> ProjectFormData \<Rightarrow> 'r \<Rightarrow> bool \<times> 'r"
  api_delete :: "jsstring \<Rightarrow> 'r \<Rightarrow> bool \<times> 'r"
  new_URL_ok :: "jsstring \<Rightarrow> bool"

definition emptyProjectForm :: ProjectFormData where
  "emptyProjectForm = \<lparr>pf_title = [], pf_description = [], pf_image = [], pf_link = [], pf_tags = []\<rparr>"

definition AdminProjects_init :: "'r \<Rightarrow> 'r AdminProjects" where
  "AdminProjects_init r =
     \<lparr>projects = [], editingProject = None, loading = False, error = None,
      formData = emptyProjectForm,
      formErrors = \<lparr>pe_title = None, pe_description = None, pe_image = None, pe_link = None\<rparr>,
      remote = r, calls = []\<rparr>"

text \<open>
  Each handler is run to completion: the steps of an \<open>async\<close> handler are not
  interleaved with other events.
\<close>

definition loadProjects :: "'r ProjectsRuntime \<Rightarrow> 'r AdminProjects \<Rightarrow> 'r AdminProjects" where
  "loadProjects rt w =
     (let w1 = w\<lparr>loading := True, calls := calls w @ [ApiGetAll]\<rparr> in
      case api_getAll rt (remote w1) of
        (Some data, r') \<Rightarrow> w1\<lparr>projects := data, remote := r', loading := False\<rparr>
      | (None, r') \<Rightarrow>
          w1\<lparr>error := Some Projeler_yuklenirken_bir_hata_olustu, remote := r',
             calls := calls w1 @ [ConsoleError], loading := False\<rparr>)"

definition isValidUrl :: "'r ProjectsRuntime \<Rightarrow> jsstring \<Rightarrow> bool" where
  "isValidUrl rt url = new_URL_ok rt url"

definition AdminProjects_errors :: "'r ProjectsRuntime \<Rightarrow> ProjectFormData \<Rightarrow> ProjectFormErrors" where
  "AdminProjects_errors rt d =
     \<lparr>pe_title =
        (if trim (pf_title d) = [] then Some Baslik_zorunludur
         else if length (pf_title d) < 3 then Some Baslik_en_az_3_karakter_olmalidir
         else None),
      pe_description =
        (if trim (pf_description d) = [] then Some Aciklama_zorunludur
         else if length (pf_description d) < 10 then Some Aciklama_en_az_10_karakter_olmalidir
         else None),
      pe_image =
        (if pf_image d \<noteq> [] \<and> \<not> isValidUrl rt (pf_image d) then Some Gecerli_bir_URL_giriniz
         else None),
      pe_link =
        (if pf_link d \<noteq> [] \<and> \<not> isValidUrl rt (pf_link d) then Some Gecerli_bir_URL_giriniz
         else None)\<rparr>"

definition project_no_errors :: "ProjectFormErrors \<Rightarrow> bool" where
  "project_no_errors e \<longleftrightarrow>
     pe_title e = None \<and> pe_description e = None \<and> pe_image e = None \<and> pe_link e = None"

definition AdminProjects_validateForm ::
  "'r ProjectsRuntime \<Rightarrow> 'r AdminProjects \<Rightarrow> bool \<times> 'r AdminProjects" where
  "AdminProjects_validateForm rt w =
     (let errors = AdminProjects_errors rt (formData w)
      in (project_no_errors errors, w\<lparr>formErrors := errors\<rparr>))"

definition AdminProjects_resetForm :: "'r AdminProjects \<Rightarrow> 'r AdminProjects" where
  "AdminProjects_resetForm w = w\<lparr>editingProject := None, formData := emptyProjectForm\<rparr>"

definition AdminProjects_handleSubmit ::
  "'r ProjectsRuntime \<Rightarrow> 'r AdminProjects \<Rightarrow> 'r AdminProjects" where
  "AdminProjects_handleSubmit rt w =
     (case AdminProjects_validateForm rt w of
        (False, w1) \<Rightarrow> w1
      | (True, w1) \<Rightarrow>
          let w2 = w1\<lparr>loading := True, error := None\<rparr>;
              projectData = (formData w)\<lparr>pf_tags := pf_tags (formData w)\<rparr>;
              (request, (ok, r')) =
                (case editingProject w of
                   Some e \<Rightarrow> (ApiUpdate (project_id e),
                              api_update rt (project_id e) projectData (remote w2))
                 | None \<Rightarrow> (ApiCreate, api_create rt projectData (remote w2)));
              w3 = w2\<lparr>remote := r', calls := calls w2 @ [request]\<rparr>
          in if ok then (AdminProjects_resetForm (loadProjects rt w3))\<lparr>loading := False\<rparr>
             else w3\<lparr>error := Some Islem_sirasinda_bir_hata_olustu,
                     calls := calls w3 @ [ConsoleError], loading := False\<rparr>)"

text \<open>\<open>project.tags || []\<close> is \<open>project.tags\<close>: an array, even an empty one, is truthy.\<close>

definition AdminProjects_handleEdit :: "Project \<Rightarrow> 'r AdminProjects \<Rightarrow> 'r AdminProjects" where
  "AdminProjects_handleEdit project w =
     w\<lparr>editingProject := Some project,
       formData :=
         \<lparr>pf_title = project_title project,
          pf_description = project_description project,
          pf_image = or_else (project_image project) [],
          pf_link = or_else (project_link project) [],
          pf_tags = project_tags project\<rparr>\<rparr>"

text \<open>\<open>answer\<close> is what the user replies to \<open>window.confirm\<close>.\<close>

definition AdminProjects_handleDelete ::
  "'r ProjectsRuntime \<Rightarrow> bool \<Rightarrow> jsstring \<Rightarrow> 'r AdminProjects \<Rightarrow> 'r AdminProjects" where
  "AdminProjects_handleDelete rt answer i w =
     (let w0 = w\<lparr>calls := calls w @ [WindowConfirm]\<rparr> in
      if \<not> answer then w0
      else
        let w1 = w0\<lparr>loading := True, error := None\<rparr>;
            (ok, r') = api_delete rt i (remote w1);
            w2 = w1\<lparr>remote := r', calls := calls w1 @ [ApiDelete i]\<rparr>
        in if ok then (loadProjects rt w2)\<lparr>loading := False\<rparr>
           else w2\<lparr>error := Some Silme_islemi_sirasinda_bir_hata_olustu,
                   calls := calls w2 @ [ConsoleError], loading := False\<rparr>)"

text \<open>The five \<open>onChange\<close> handlers of the form; \<open>v\<close> is \<open>e.target.value\<close>.\<close>

definition AdminProjects_onChange_title :: "jsstring \<Rightarrow> 'r AdminProjects \<Rightarrow> 'r AdminProjects" where
  "AdminProjects_onChange_title v w =
     w\<lparr>formData := (formData w)\<lparr>pf_title := v\<rparr>,
       formErrors := (formErrors w)\<lparr>pe_title := None\<rparr>\<rparr>"

definition AdminProjects_onChange_description ::
  "jsstring \<Rightarrow> 'r AdminProjects \<Rightarrow> 'r AdminProjects" where
  "AdminProjects_onChange_description v w = w\<lparr>formData := (formData w)\<lparr>pf_description := v\<rparr>\<rparr>"

definition AdminProjects_onChange_image :: "jsstring \<Rightarrow> 'r AdminProjects \<Rightarrow> 'r AdminProjects" where
  "AdminProjects_onChange_image v w = w\<lparr>formData := (formData w)\<lparr>pf_image := v\<rparr>\<rparr>"

definition AdminProjects_onChange_link :: "jsstring \<Rightarrow> 'r AdminProjects \<Rightarrow> 'r AdminProjects" where
  "AdminProjects_onChange_link v w = w\<lparr>formData := (formData w)\<lparr>pf_link := v\<rparr>\<rparr>"

definition AdminProjects_onChange_tags :: "jsstring \<Rightarrow> 'r AdminProjects \<Rightarrow> 'r AdminProjects" where
  "AdminProjects_onChange_tags v w =
     (let tagsArray = filter (\<lambda>tag. tag \<noteq> []) (map trim (split_on 0x002C v))
      in w\<lparr>formData := (formData w)\<lparr>pf_tags := tagsArray\<rparr>\<rparr>)"

section \<open>Image\<close>

text \<open>
  The props of the component: \<open>src\<close>, \<open>alt\<close> and \<open>fallback\<close> are taken out by the
  destructuring; of the remaining attributes, spread onto the element last, the
  model keeps \<open>onError\<close> (\<open>None\<close> when the caller passes none), since it is the one
  that meets an attribute the component sets itself.
\<close>

record 'h ImageProps =
  src :: "jsstring option"
  alt :: "jsstring option"
  fallback :: "jsstring option"
  rest_onError :: "'h option"

text \<open>The handler on the rendered element: the component's own, or the caller's.\<close>

datatype 'h handler = SetErrorTrue | Caller 'h

record 'h img =
  img_src :: "jsstring option"
  img_alt :: "jsstring option"
  img_onError :: "'h handler"

definition default_fallback :: jsstring where
  "default_fallback = js ''/images/placeholder.png''"

text \<open>One render, with the \<open>useState\<close> cell \<open>error\<close> as second argument.\<close>

definition Image :: "'h ImageProps \<Rightarrow> bool \<Rightarrow> 'h img" where
  "Image p err =
     (let fb = (case fallback p of None \<Rightarrow> default_fallback | Some f \<Rightarrow> f) in
      \<lparr>img_src = (if err then Some fb else src p),
       img_alt = alt p,
       img_onError = (case rest_onError p of None \<Rightarrow> SetErrorTrue | Some h \<Rightarrow> Caller h)\<rparr>)"

text \<open>
  A mounted instance: the props of its latest render and its \<open>error\<close> cell. A load
  failure runs the handler of the rendered element; a caller's handler has no
  access to the cell.
\<close>

record 'h ImageInstance =
  props :: "'h ImageProps"
  has_errored :: bool

datatype 'h image_event = Rerender "'h ImageProps" | LoadFailure

definition Image_mount :: "'h ImageProps \<Rightarrow> 'h ImageInstance" where
  "Image_mount p = \<lparr>props = p, has_errored = False\<rparr>"

definition Image_rendered :: "'h ImageInstance \<Rightarrow> 'h img" where
  "Image_rendered i = Image (props i) (has_errored i)"

fun Image_step :: "'h ImageInstance \<Rightarrow> 'h image_event \<Rightarrow> 'h ImageInstance" where
  "Image_step i (Rerender p) = i\<lparr>props := p\<rparr>"
| "Image_step i LoadFailure =
     (case img_onError (Image_rendered i) of
        SetErrorTrue \<Rightarrow> i\<lparr>has_errored := True\<rparr>
      | Caller h \<Rightarrow> i)"

definition Image_run :: "'h ImageInstance \<Rightarrow> 'h image_event list \<Rightarrow> 'h ImageInstance" where
  "Image_run i es = foldl Image_step i es"

section \<open>Sample inputs\<close>

text \<open>
  Concrete runtimes and states at which the theorems below are evaluated. The
  sample \<open>JSON.parse\<close> knows the encoding of the empty collection only, and the
  sample service accepts deletes and rejects writes.
\<close>

definition sample_runtime :: BlogRuntime where
  "sample_runtime =
     \<lparr>JSON_parse = (\<lambda>s. if s = js ''[]'' then Some [] else None),
      JSON_stringify = (\<lambda>ps. js ''['' @ concat (map post_id ps) @ js '']''),
      Date_now_toString = js ''1700000000000'',
      new_Date_toISOString = js ''2023-11-14T22:13:20.000Z''\<rparr>"

definition sample_service :: "Project list ProjectsRuntime" where
  "sample_service =
     \<lparr>api_getAll = (\<lambda>r. (Some r, r)),
      api_create = (\<lambda>d r. (False, r)),
      api_update = (\<lambda>i d r. (False, r)),
      api_delete = (\<lambda>i r. (True, filter (\<lambda>p. project_id p \<noteq> i) r)),
      new_URL_ok = (\<lambda>s. take 8 s = js ''https://'' \<and> 8 < length s)\<rparr>"

definition first_post :: BlogPost where
  "first_post =
     \<lparr>post_id = js ''1699999999001'', post_title = js ''First'',
      post_content = replicate 50 0x61, post_date = js ''2023-11-14T22:13:19.001Z''\<rparr>"

definition second_post :: BlogPost where
  "second_post =
     \<lparr>post_id = js ''1699999999002'', post_title = js ''Second'',
      post_content = replicate 50 0x62, post_date = js ''2023-11-14T22:13:19.002Z''\<rparr>"

definition two_posts :: AdminBlog where
  "two_posts = (AdminBlog_init Map.empty)\<lparr>posts := [first_post, second_post]\<rparr>"

definition editing_second :: AdminBlog where
  "editing_second =
     AdminBlog_onChange_title (js ''Second, revised'') (AdminBlog_handleEdit second_post two_posts)"

definition no_projects :: "Project list AdminProjects" where
  "no_projects = AdminProjects_init []"

definition rejected_project_form :: "Project list AdminProjects" where
  "rejected_project_form = AdminProjects_handleSubmit sample_service no_projects"

definition rejected_blog_form :: AdminBlog where
  "rejected_blog_form = AdminBlog_handleSubmit sample_runtime (AdminBlog_init Map.empty)"

definition malformed_storage :: "jsstring \<rightharpoonup> jsstring" where
  "malformed_storage = [blogPosts_key \<mapsto> js ''{'']"

definition forwarding_props :: "unit ImageProps" where
  "forwarding_props =
     \<lparr>src = Some (js ''/images/a.png''), alt = None, fallback = Some (js ''/images/b.png''),
      rest_onError = Some ()\<rparr>"

definition forwarding_props_no_fallback :: "unit ImageProps" where
  "forwarding_props_no_fallback =
     \<lparr>src = Some (js ''/images/a.png''), alt = None, fallback = None, rest_onError = Some ()\<rparr>"

definition plain_props :: "unit ImageProps" where
  "plain_props =
     \<lparr>src = Some (js ''/images/a.png''), alt = None, fallback = Some (js ''/images/b.png''),
      rest_onError = None\<rparr>"

definition plain_props_no_fallback :: "unit ImageProps" where
  "plain_props_no_fallback =
     \<lparr>src = Some (js ''/images/a.png''), alt = None, fallback = None, rest_onError = None\<rparr>"

section \<open>Trimming\<close>

lemma trim_Nil: "trim [] = []"
  by (simp add: trim_def)

lemma length_trim_le: "length (trim s) \<le> length s"
proof -
  have "length (trim s) = length (dropWhile is_js_space (rev (dropWhile is_js_space s)))"
    by (simp add: trim_def)
  also have "\<dots> \<le> length (rev (dropWhile is_js_space s))"
    by (rule length_dropWhile_le)
  also have "\<dots> \<le> length s"
    by (simp add: length_dropWhile_le)
  finally show ?thesis .
qed

lemma trim_unchanged:
  assumes "s \<noteq> []" "\<not> is_js_space (hd s)" "\<not> is_js_space (last s)"
  shows "trim s = s"
proof -
  have at_front: "dropWhile is_js_space s = s"
    using assms by (simp add: dropWhile_eq_self_iff)
  have at_end: "dropWhile is_js_space (rev s) = rev s"
    using assms by (simp add: dropWhile_eq_self_iff hd_rev)
  show ?thesis by (simp add: trim_def at_front at_end)
qed

section \<open>Update in place (AdminBlog)\<close>

lemma AdminBlog_handleSubmit_valid:
  assumes "blog_no_errors (AdminBlog_errors (blogFormData w))"
  shows "posts (AdminBlog_handleSubmit rt w) =
           (case editingPost w of
              Some e \<Rightarrow> map (\<lambda>p. if post_id p = post_id e then AdminBlog_newPost rt w else p) (posts w)
            | None \<Rightarrow> posts w @ [AdminBlog_newPost rt w])"
    and "localStorage (AdminBlog_handleSubmit rt w) blogPosts_key =
           Some (JSON_stringify rt (posts (AdminBlog_handleSubmit rt w)))"
    and "editingPost (AdminBlog_handleSubmit rt w) = None"
  using assms
  by (simp_all add: AdminBlog_handleSubmit_def AdminBlog_validateForm_def
        AdminBlog_resetForm_def Let_def)

lemma AdminBlog_newPost_editing:
  assumes "editingPost w = Some e" "post_id e \<noteq> []" "post_date e \<noteq> []"
  shows "AdminBlog_newPost rt w =
           \<lparr>post_id = post_id e, post_title = bf_title (blogFormData w),
            post_content = bf_content (blogFormData w), post_date = post_date e\<rparr>"
  using assms by (simp add: AdminBlog_newPost_def or_else_def)

lemma same_id_same_post:
  assumes "distinct (map post_id ps)" "e \<in> set ps" "p \<in> set ps" "post_id p = post_id e"
  shows "p = e"
  using assms by (meson distinct_map inj_onD)

lemma AdminBlog_handleEdit_editing:
  "editingPost (AdminBlog_handleEdit p w) = Some p"
  "posts (AdminBlog_handleEdit p w) = posts w"
  "blogFormData (AdminBlog_handleEdit p w) = \<lparr>bf_title = post_title p, bf_content = post_content p\<rparr>"
  by (simp_all add: AdminBlog_handleEdit_def)

lemma editing_second_simps:
  "posts editing_second = [first_post, second_post]"
  "editingPost editing_second = Some second_post"
  "blogFormData editing_second =
     \<lparr>bf_title = js ''Second, revised'', bf_content = replicate 50 0x62\<rparr>"
  by (simp_all add: editing_second_def two_posts_def AdminBlog_onChange_title_def
        AdminBlog_handleEdit_def AdminBlog_init_def second_post_def)

text \<open>
  The records the component writes carry a creation-time token as id and a
  timestamp as date, neither of them empty: a create or an update adds only
  such a record, given clock readings that are not empty, and a delete adds
  none.
\<close>

lemma or_else_given: "b \<noteq> [] \<Longrightarrow> or_else a b \<noteq> []"
  by (simp add: or_else_def split: option.splits)

lemma AdminBlog_newPost_stamped:
  assumes "Date_now_toString rt \<noteq> []" "new_Date_toISOString rt \<noteq> []"
  shows "post_id (AdminBlog_newPost rt w) \<noteq> [] \<and> post_date (AdminBlog_newPost rt w) \<noteq> []"
  using assms by (simp add: AdminBlog_newPost_def or_else_given)

lemma AdminBlog_handleSubmit_stamped:
  assumes "stamped (posts w)" "Date_now_toString rt \<noteq> []" "new_Date_toISOString rt \<noteq> []"
  shows "stamped (posts (AdminBlog_handleSubmit rt w))"
proof (cases "blog_no_errors (AdminBlog_errors (blogFormData w))")
  case True
  note new = AdminBlog_newPost_stamped [OF assms(2,3), of w]
  show ?thesis
    using AdminBlog_handleSubmit_valid(1) [OF True, of rt] assms(1) new
    by (auto simp: stamped_def list_all_iff split: option.splits)
next
  case False
  then have "posts (AdminBlog_handleSubmit rt w) = posts w"
    by (simp add: AdminBlog_handleSubmit_def AdminBlog_validateForm_def Let_def)
  with assms(1) show ?thesis by simp
qed

lemma AdminBlog_handleDelete_stamped:
  "stamped (posts w) \<Longrightarrow> stamped (posts (AdminBlog_handleDelete rt i w))"
  by (simp add: stamped_def list_all_iff AdminBlog_handleDelete_def Let_def)

lemma AdminBlog_init_stamped: "stamped (posts (AdminBlog_init storage))"
  by (simp add: stamped_def AdminBlog_init_def)

text \<open>
  C1: in a collection of records with pairwise distinct ids, submitting a valid
  draft while a record of the collection is being edited (its id and its date
  are not empty, as for every record the component writes) yields a collection
  of the same length in which, position by position, the record with the edited
  id carries the draft's title and content with its own id and its own date,
  and every other record is the one that was there; the new collection is what
  is stored under the key.
\<close>

theorem AdminBlog_update_in_place:
  assumes editing: "editingPost w = Some e"
    and present: "e \<in> set (posts w)"
    and unique: "distinct (map post_id (posts w))"
    and id_given: "post_id e \<noteq> []"
    and date_given: "post_date e \<noteq> []"
    and valid: "blog_no_errors (AdminBlog_errors (blogFormData w))"
  shows "length (posts (AdminBlog_handleSubmit rt w)) = length (posts w)
       \<and> (\<forall>k < length (posts w).
            posts (AdminBlog_handleSubmit rt w) ! k =
              (if post_id (posts w ! k) = post_id e
               then \<lparr>post_id = post_id (posts w ! k),
                     post_title = bf_title (blogFormData w),
                     post_content = bf_content (blogFormData w),
                     post_date = post_date (posts w ! k)\<rparr>
               else posts w ! k))
       \<and> localStorage (AdminBlog_handleSubmit rt w) blogPosts_key =
            Some (JSON_stringify rt (posts (AdminBlog_handleSubmit rt w)))"
proof -
  let ?new = "\<lparr>post_id = post_id e, post_title = bf_title (blogFormData w),
               post_content = bf_content (blogFormData w), post_date = post_date e\<rparr>"
  have new: "AdminBlog_newPost rt w = ?new"
    using editing id_given date_given by (rule AdminBlog_newPost_editing)
  have ps: "posts (AdminBlog_handleSubmit rt w) =
              map (\<lambda>p. if post_id p = post_id e then ?new else p) (posts w)"
    using AdminBlog_handleSubmit_valid(1) [OF valid, of rt] editing new by simp
  have "posts (AdminBlog_handleSubmit rt w) ! k =
          (if post_id (posts w ! k) = post_id e
           then \<lparr>post_id = post_id (posts w ! k),
                 post_title = bf_title (blogFormData w),
                 post_content = bf_content (blogFormData w),
                 post_date = post_date (posts w ! k)\<rparr>
           else posts w ! k)" if k: "k < length (posts w)" for k
  proof (cases "post_id (posts w ! k) = post_id e")
    case True
    have "posts w ! k \<in> set (posts w)" using k by simp
    then have "posts w ! k = e"
      using same_id_same_post [OF unique present] True by blast
    then show ?thesis using ps k by simp
  next
    case False
    then show ?thesis using ps k by simp
  qed
  moreover have "length (posts (AdminBlog_handleSubmit rt w)) = length (posts w)"
    using ps by simp
  ultimately show ?thesis
    using AdminBlog_handleSubmit_valid(2) [OF valid, of rt] by blast
qed

text \<open>C1 at two stored posts, the second one edited.\<close>

theorem AdminBlog_update_in_place_witness:
  "editingPost editing_second = Some second_post
   \<and> second_post \<in> set (posts editing_second)
   \<and> distinct (map post_id (posts editing_second))
   \<and> post_id second_post \<noteq> [] \<and> post_date second_post \<noteq> []
   \<and> blog_no_errors (AdminBlog_errors (blogFormData editing_second))
   \<and> posts (AdminBlog_handleSubmit sample_runtime editing_second) ! 0 = first_post
   \<and> posts (AdminBlog_handleSubmit sample_runtime editing_second) ! 1
       = second_post\<lparr>post_title := js ''Second, revised''\<rparr>"
proof -
  have h1: "editingPost editing_second = Some second_post"
    by (simp add: editing_second_simps)
  have h2: "second_post \<in> set (posts editing_second)"
    by (simp add: editing_second_simps)
  have ids: "post_id first_post \<noteq> post_id second_post"
    by (simp add: first_post_def second_post_def js_def)
  then have h3: "distinct (map post_id (posts editing_second))"
    by (simp add: editing_second_simps)
  have h4: "post_id second_post \<noteq> []" and h5: "post_date second_post \<noteq> []"
    by (simp_all add: second_post_def js_def)
  have h6: "blog_no_errors (AdminBlog_errors (blogFormData editing_second))"
    by (simp add: editing_second_simps blog_no_errors_def AdminBlog_errors_def
          trim_unchanged is_js_space_def js_def)
  have all: "\<forall>k < length (posts editing_second).
            posts (AdminBlog_handleSubmit sample_runtime editing_second) ! k =
              (if post_id (posts editing_second ! k) = post_id second_post
               then \<lparr>post_id = post_id (posts editing_second ! k),
                     post_title = bf_title (blogFormData editing_second),
                     post_content = bf_content (blogFormData editing_second),
                     post_date = post_date (posts editing_second ! k)\<rparr>
               else posts editing_second ! k)"
    using AdminBlog_update_in_place [OF h1 h2 h3 h4 h5 h6, of sample_runtime] by blast
  have at0: "posts (AdminBlog_handleSubmit sample_runtime editing_second) ! 0 = first_post"
    using all [rule_format, of 0] ids by (simp add: editing_second_simps)
  have at1: "posts (AdminBlog_handleSubmit sample_runtime editing_second) ! 1
       = second_post\<lparr>post_title := js ''Second, revised''\<rparr>"
    using all [rule_format, of 1] by (simp add: editing_second_simps) (simp add: second_post_def)
  from h1 h2 h3 h4 h5 h6 at0 at1 show ?thesis by blast
qed

section \<open>Validation\<close>



text \<open>
  C4, as stated, fails on the title \<open>"a  "\<close>: its trimmed form has one character,
  and the title rule passes, since the length that is compared is that of the
  value as typed.
\<close>

theorem title_rule_trailing_spaces_counterexample:
  "be_title (AdminBlog_errors \<lparr>bf_title = js ''a  '', bf_content = []\<rparr>) = None
   \<and> length (trim (js ''a  '')) < 3"
  by (simp add: AdminBlog_errors_def trim_def is_js_space_def js_def)

text \<open>
  C4, amended: only the emptiness test is applied to the trimmed value. A draft
  passes the title rule iff its trimmed title is non-empty and its title, as
  typed, has at least 3 characters; the description rule iff the trimmed
  description is non-empty and the description has at least 10 characters; the
  content rule iff the trimmed content is non-empty and the content has at least
  50 characters. A value whose trimmed form reaches the bound passes.
\<close>

theorem length_rules_on_untrimmed_value:
  "(be_title (AdminBlog_errors c) = None
      \<longleftrightarrow> trim (bf_title c) \<noteq> [] \<and> 3 \<le> length (bf_title c))
   \<and> (be_content (AdminBlog_errors c) = None
      \<longleftrightarrow> trim (bf_content c) \<noteq> [] \<and> 50 \<le> length (bf_content c))
   \<and> (pe_title (AdminProjects_errors rt d) = None
      \<longleftrightarrow> trim (pf_title d) \<noteq> [] \<and> 3 \<le> length (pf_title d))
   \<and> (pe_description (AdminProjects_errors rt d) = None
      \<longleftrightarrow> trim (pf_description d) \<noteq> [] \<and> 10 \<le> length (pf_description d))
   \<and> (3 \<le> length (trim (bf_title c)) \<longrightarrow> be_title (AdminBlog_errors c) = None)
   \<and> (50 \<le> length (trim (bf_content c)) \<longrightarrow> be_content (AdminBlog_errors c) = None)
   \<and> (3 \<le> length (trim (pf_title d)) \<longrightarrow> pe_title (AdminProjects_errors rt d) = None)
   \<and> (10 \<le> length (trim (pf_description d)) \<longrightarrow>
        pe_description (AdminProjects_errors rt d) = None)"
proof -
  have long: "trim s \<noteq> [] \<and> n \<le> length s" if "n \<le> length (trim s)" "0 < n" for s and n :: nat
    using that length_trim_le [of s] by auto
  have "3 \<le> length (trim (bf_title c)) \<longrightarrow> be_title (AdminBlog_errors c) = None"
    using long [of 3 "bf_title c"] by (auto simp: AdminBlog_errors_def)
  moreover have "50 \<le> length (trim (bf_content c)) \<longrightarrow> be_content (AdminBlog_errors c) = None"
    using long [of 50 "bf_content c"] by (auto simp: AdminBlog_errors_def)
  moreover have "3 \<le> length (trim (pf_title d)) \<longrightarrow> pe_title (AdminProjects_errors rt d) = None"
    using long [of 3 "pf_title d"] by (auto simp: AdminProjects_errors_def)
  moreover have "10 \<le> length (trim (pf_description d)) \<longrightarrow>
        pe_description (AdminProjects_errors rt d) = None"
    using long [of 10 "pf_description d"] by (auto simp: AdminProjects_errors_def)
  moreover have "(be_title (AdminBlog_errors c) = None
      \<longleftrightarrow> trim (bf_title c) \<noteq> [] \<and> 3 \<le> length (bf_title c))
   \<and> (be_content (AdminBlog_errors c) = None
      \<longleftrightarrow> trim (bf_content c) \<noteq> [] \<and> 50 \<le> length (bf_content c))
   \<and> (pe_title (AdminProjects_errors rt d) = None
      \<longleftrightarrow> trim (pf_title d) \<noteq> [] \<and> 3 \<le> length (pf_title d))
   \<and> (pe_description (AdminProjects_errors rt d) = None
      \<longleftrightarrow> trim (pf_description d) \<noteq> [] \<and> 10 \<le> length (pf_description d))"
    by (auto simp: AdminBlog_errors_def AdminProjects_errors_def)
  ultimately show ?thesis by blast
qed

text \<open>The amended C4 at a padded title and at drafts that pass every rule.\<close>

theorem length_rules_on_untrimmed_value_witness:
  "3 \<le> length (trim (bf_title \<lparr>bf_title = js '' abc '', bf_content = replicate 50 0x61\<rparr>))
   \<and> 50 \<le> length (trim (bf_content \<lparr>bf_title = js '' abc '', bf_content = replicate 50 0x61\<rparr>))
   \<and> 3 \<le> length (trim (pf_title (emptyProjectForm
         \<lparr>pf_title := js ''Echo'', pf_description := js ''A portfolio''\<rparr>)))
   \<and> 10 \<le> length (trim (pf_description (emptyProjectForm
         \<lparr>pf_title := js ''Echo'', pf_description := js ''A portfolio''\<rparr>)))
   \<and> blog_no_errors (AdminBlog_errors \<lparr>bf_title = js '' abc '', bf_content = replicate 50 0x61\<rparr>)
   \<and> project_no_errors (AdminProjects_errors sample_service (emptyProjectForm
         \<lparr>pf_title := js ''Echo'', pf_description := js ''A portfolio''\<rparr>))"
proof -
  let ?c = "\<lparr>bf_title = js '' abc '', bf_content = replicate 50 0x61\<rparr>"
  let ?d = "emptyProjectForm\<lparr>pf_title := js ''Echo'', pf_description := js ''A portfolio''\<rparr>"
  have t: "trim (bf_title ?c) = js ''abc''"
    by (simp add: trim_def is_js_space_def js_def)
  have k: "trim (bf_content ?c) = replicate 50 0x61"
    by (simp add: trim_unchanged is_js_space_def)
  have pt: "trim (pf_title ?d) = js ''Echo''"
    by (simp add: trim_def is_js_space_def js_def)
  have pd: "trim (pf_description ?d) = js ''A portfolio''"
    by (simp add: trim_def is_js_space_def js_def)
  have h: "3 \<le> length (trim (bf_title ?c))" "50 \<le> length (trim (bf_content ?c))"
    "3 \<le> length (trim (pf_title ?d))" "10 \<le> length (trim (pf_description ?d))"
    unfolding t k pt pd by (simp_all add: js_def)
  have rest: "pe_image (AdminProjects_errors sample_service ?d) = None"
    "pe_link (AdminProjects_errors sample_service ?d) = None"
    by (simp_all add: AdminProjects_errors_def emptyProjectForm_def)
  from length_rules_on_untrimmed_value [of ?c sample_service ?d] h
  have "be_title (AdminBlog_errors ?c) = None" "be_content (AdminBlog_errors ?c) = None"
    "pe_title (AdminProjects_errors sample_service ?d) = None"
    "pe_description (AdminProjects_errors sample_service ?d) = None"
    by blast+
  with rest h show ?thesis
    unfolding blog_no_errors_def project_no_errors_def by blast
qed

section \<open>Rejected submits\<close>

text \<open>
  C3: when validation finds an error, \<open>handleSubmit\<close> returns the state it was
  given with the error annotations replaced and nothing else changed: in
  AdminProjects the collection, the remote service and the log of calls, in
  AdminBlog the collection, the local storage and the log of calls are the same
  as before.
\<close>

theorem rejected_submit_only_annotates:
  "(\<not> project_no_errors (AdminProjects_errors rt (formData w)) \<longrightarrow>
      AdminProjects_handleSubmit rt w = w\<lparr>formErrors := AdminProjects_errors rt (formData w)\<rparr>)
   \<and> (\<not> blog_no_errors (AdminBlog_errors (blogFormData b)) \<longrightarrow>
      AdminBlog_handleSubmit brt b = b\<lparr>blogFormErrors := AdminBlog_errors (blogFormData b)\<rparr>)"
  by (simp add: AdminProjects_handleSubmit_def AdminProjects_validateForm_def
        AdminBlog_handleSubmit_def AdminBlog_validateForm_def Let_def)

lemma empty_forms_rejected:
  "\<not> project_no_errors (AdminProjects_errors sample_service (formData (AdminProjects_init r)))"
  "\<not> blog_no_errors (AdminBlog_errors (blogFormData (AdminBlog_init m)))"
  by (simp_all add: project_no_errors_def AdminProjects_errors_def AdminProjects_init_def
        emptyProjectForm_def blog_no_errors_def AdminBlog_errors_def AdminBlog_init_def trim_Nil)

text \<open>C3 at the empty project form and at the empty blog form over two stored posts.\<close>

theorem rejected_submit_only_annotates_witness:
  "\<not> project_no_errors (AdminProjects_errors sample_service (formData no_projects))
   \<and> projects (AdminProjects_handleSubmit sample_service no_projects) = []
   \<and> remote (AdminProjects_handleSubmit sample_service no_projects) = []
   \<and> calls (AdminProjects_handleSubmit sample_service no_projects) = []
   \<and> \<not> blog_no_errors (AdminBlog_errors (blogFormData two_posts))
   \<and> posts (AdminBlog_handleSubmit sample_runtime two_posts) = [first_post, second_post]
   \<and> localStorage (AdminBlog_handleSubmit sample_runtime two_posts) = Map.empty
   \<and> blogCalls (AdminBlog_handleSubmit sample_runtime two_posts) = []"
proof -
  have p: "\<not> project_no_errors (AdminProjects_errors sample_service (formData no_projects))"
    unfolding no_projects_def by (rule empty_forms_rejected)
  have b: "\<not> blog_no_errors (AdminBlog_errors (blogFormData two_posts))"
    using empty_forms_rejected(2) [of Map.empty] by (simp add: two_posts_def)
  note both = rejected_submit_only_annotates [of sample_service no_projects two_posts sample_runtime]
  have "AdminProjects_handleSubmit sample_service no_projects
          = no_projects\<lparr>formErrors := AdminProjects_errors sample_service (formData no_projects)\<rparr>"
    by (rule conjunct1 [OF both, THEN mp, OF p])
  moreover have "AdminBlog_handleSubmit sample_runtime two_posts
          = two_posts\<lparr>blogFormErrors := AdminBlog_errors (blogFormData two_posts)\<rparr>"
    by (rule conjunct2 [OF both, THEN mp, OF b])
  ultimately show ?thesis
    using p b by (simp add: no_projects_def AdminProjects_init_def two_posts_def AdminBlog_init_def)
qed

section \<open>Editing a field\<close>

lemma onChange_title_clears_title_only:
  "formErrors (AdminProjects_onChange_title v w) = (formErrors w)\<lparr>pe_title := None\<rparr>"
  "blogFormErrors (AdminBlog_onChange_title v b) = (blogFormErrors b)\<lparr>be_title := None\<rparr>"
  by (simp_all add: AdminProjects_onChange_title_def AdminBlog_onChange_title_def)

lemma onChange_others_keep_errors:
  "formErrors (AdminProjects_onChange_description v w) = formErrors w"
  "formErrors (AdminProjects_onChange_image v w) = formErrors w"
  "formErrors (AdminProjects_onChange_link v w) = formErrors w"
  "formErrors (AdminProjects_onChange_tags v w) = formErrors w"
  "blogFormErrors (AdminBlog_onChange_content v b) = blogFormErrors b"
  by (simp_all add: AdminProjects_onChange_description_def AdminProjects_onChange_image_def
        AdminProjects_onChange_link_def AdminProjects_onChange_tags_def
        AdminBlog_onChange_content_def Let_def)

lemma rejected_project_form_errors:
  "formErrors rejected_project_form =
     \<lparr>pe_title = Some Baslik_zorunludur, pe_description = Some Aciklama_zorunludur,
      pe_image = None, pe_link = None\<rparr>"
  by (simp add: rejected_project_form_def no_projects_def AdminProjects_handleSubmit_def
        AdminProjects_validateForm_def AdminProjects_errors_def AdminProjects_init_def
        emptyProjectForm_def project_no_errors_def trim_def Let_def)

lemma rejected_blog_form_errors:
  "blogFormErrors rejected_blog_form =
     \<lparr>be_title = Some Baslik_zorunludur, be_content = Some Icerik_zorunludur\<rparr>"
  by (simp add: rejected_blog_form_def AdminBlog_handleSubmit_def
        AdminBlog_validateForm_def AdminBlog_errors_def AdminBlog_init_def
        blog_no_errors_def trim_def Let_def)

text \<open>
  C5 says that editing any field clears that field's error. The code does so for
  the title only: after a rejected submit of the empty form, typing a description
  (a content, for a blog post) leaves the description (content) error in place,
  while typing a title clears the title error.
\<close>

theorem edited_description_keeps_error:
  "pe_description (formErrors rejected_project_form) = Some Aciklama_zorunludur
   \<and> pe_description (formErrors
        (AdminProjects_onChange_description (js ''A portfolio site'') rejected_project_form))
       = Some Aciklama_zorunludur
   \<and> be_content (blogFormErrors rejected_blog_form) = Some Icerik_zorunludur
   \<and> be_content (blogFormErrors
        (AdminBlog_onChange_content (replicate 50 0x61) rejected_blog_form))
       = Some Icerik_zorunludur
   \<and> pe_title (formErrors
        (AdminProjects_onChange_title (js ''Echo'') rejected_project_form)) = None"
  by (simp add: onChange_title_clears_title_only onChange_others_keep_errors
        rejected_project_form_errors rejected_blog_form_errors)

section \<open>Deleting\<close>

text \<open>AdminProjects asks first, and does nothing else when the answer is no.\<close>

lemma AdminProjects_delete_declined:
  "AdminProjects_handleDelete rt False i w = w\<lparr>calls := calls w @ [WindowConfirm]\<rparr>"
  by (simp add: AdminProjects_handleDelete_def Let_def)

lemma loadProjects_calls: "\<exists>cs. calls (loadProjects rt w) = calls w @ ApiGetAll # cs"
  by (simp add: loadProjects_def Let_def split: prod.splits option.splits)

lemma AdminProjects_delete_confirms_first:
  "\<exists>cs. calls (AdminProjects_handleDelete rt answer i w) = calls w @ WindowConfirm # cs"
proof (cases answer)
  case False
  then show ?thesis by (simp add: AdminProjects_delete_declined)
next
  case True
  obtain ok r' where d: "api_delete rt i (remote w) = (ok, r')"
    by (cases "api_delete rt i (remote w)")
  show ?thesis
  proof (cases ok)
    case False
    with True d show ?thesis by (simp add: AdminProjects_handleDelete_def Let_def)
  next
    case ok: True
    let ?w2 = "w\<lparr>calls := calls w @ [WindowConfirm], loading := True, error := None,
                  remote := r', calls := (calls w @ [WindowConfirm]) @ [ApiDelete i]\<rparr>"
    obtain cs where "calls (loadProjects rt ?w2) = calls ?w2 @ ApiGetAll # cs"
      using loadProjects_calls by blast
    with True d ok show ?thesis by (simp add: AdminProjects_handleDelete_def Let_def)
  qed
qed

text \<open>
  C6 says that every delete, in both stores, is preceded by a confirmation. In
  AdminBlog there is none: deleting the first of two stored posts removes it and
  rewrites the storage, and no confirmation is among the calls made.
\<close>

theorem AdminBlog_delete_without_confirmation:
  "posts two_posts = [first_post, second_post]
   \<and> posts (AdminBlog_handleDelete sample_runtime (post_id first_post) two_posts) = [second_post]
   \<and> localStorage (AdminBlog_handleDelete sample_runtime (post_id first_post) two_posts)
        \<noteq> localStorage two_posts
   \<and> WindowConfirm \<notin> set (blogCalls
        (AdminBlog_handleDelete sample_runtime (post_id first_post) two_posts))"
  by (simp add: AdminBlog_handleDelete_def two_posts_def AdminBlog_init_def first_post_def
        second_post_def Let_def fun_eq_iff) (simp add: js_def)

text \<open>
  C8: after \<open>handleDelete i\<close> no record of the collection has the id \<open>i\<close>; when
  none had it before, the collection is the same list; a second delete of the
  same id changes neither the collection nor the storage; and what is stored is
  the encoding of the collection that is left. The handler has no failing path.
\<close>

theorem AdminBlog_delete_removes_id:
  "i \<notin> post_id ` set (posts (AdminBlog_handleDelete rt i w))
   \<and> (i \<notin> post_id ` set (posts w) \<longrightarrow> posts (AdminBlog_handleDelete rt i w) = posts w)
   \<and> posts (AdminBlog_handleDelete rt i (AdminBlog_handleDelete rt i w))
        = posts (AdminBlog_handleDelete rt i w)
   \<and> localStorage (AdminBlog_handleDelete rt i (AdminBlog_handleDelete rt i w))
        = localStorage (AdminBlog_handleDelete rt i w)
   \<and> localStorage (AdminBlog_handleDelete rt i w) blogPosts_key
        = Some (JSON_stringify rt (posts (AdminBlog_handleDelete rt i w)))"
proof -
  have gone: "i \<notin> post_id ` set (posts (AdminBlog_handleDelete rt i w))"
    by (auto simp: AdminBlog_handleDelete_def Let_def)
  have absent: "posts (AdminBlog_handleDelete rt i w) = posts w"
    if "i \<notin> post_id ` set (posts w)"
  proof -
    from that have "\<forall>p \<in> set (posts w). post_id p \<noteq> i" by auto
    then have "filter (\<lambda>p. post_id p \<noteq> i) (posts w) = posts w"
      by (simp add: filter_id_conv)
    then show ?thesis by (simp add: AdminBlog_handleDelete_def Let_def)
  qed
  have again_posts: "posts (AdminBlog_handleDelete rt i (AdminBlog_handleDelete rt i w))
        = posts (AdminBlog_handleDelete rt i w)"
    by (simp add: AdminBlog_handleDelete_def Let_def)
  have again_store: "localStorage (AdminBlog_handleDelete rt i (AdminBlog_handleDelete rt i w))
        = localStorage (AdminBlog_handleDelete rt i w)"
    by (simp add: AdminBlog_handleDelete_def Let_def)
  have stored: "localStorage (AdminBlog_handleDelete rt i w) blogPosts_key
        = Some (JSON_stringify rt (posts (AdminBlog_handleDelete rt i w)))"
    by (simp add: AdminBlog_handleDelete_def Let_def)
  from gone absent again_posts again_store stored show ?thesis by blast
qed

lemma two_posts_ids:
  "post_id ` set (posts two_posts) = {js ''1699999999001'', js ''1699999999002''}"
  by (simp add: two_posts_def AdminBlog_init_def first_post_def second_post_def insert_commute)

text \<open>C8 at two stored posts and an id that neither has.\<close>

theorem AdminBlog_delete_removes_id_witness:
  "js ''0'' \<notin> post_id ` set (posts two_posts)
   \<and> posts (AdminBlog_handleDelete sample_runtime (js ''0'') two_posts) = posts two_posts"
proof -
  have h: "js ''0'' \<notin> post_id ` set (posts two_posts)"
    by (simp add: two_posts_ids) (simp add: js_def)
  with AdminBlog_delete_removes_id [of "js ''0''" sample_runtime two_posts]
  show ?thesis by blast
qed

text \<open>
  With a runtime whose \<open>JSON.parse\<close> reads back what its \<open>JSON.stringify\<close> wrote
  for the collection that is left, mounting again on the storage after the delete
  gives that collection.
\<close>

lemma AdminBlog_remount_after_delete:
  assumes "JSON_stringify rt (filter (\<lambda>p. post_id p \<noteq> i) (posts w)) \<noteq> []"
    and "JSON_parse rt (JSON_stringify rt (filter (\<lambda>p. post_id p \<noteq> i) (posts w)))
           = Some (filter (\<lambda>p. post_id p \<noteq> i) (posts w))"
  shows "\<exists>w'. AdminBlog_mount rt (AdminBlog_init (localStorage (AdminBlog_handleDelete rt i w)))
                = Inr w'
              \<and> posts w' = filter (\<lambda>p. post_id p \<noteq> i) (posts w)"
  using assms
  by (simp add: AdminBlog_mount_def AdminBlog_init_def AdminBlog_handleDelete_def Let_def)

section \<open>Reading the stored posts\<close>

text \<open>
  C7 says that the read at mount never fails. The code parses the stored text
  outside any \<open>try\<close>: when the text under the key is non-empty and \<open>JSON.parse\<close>
  rejects it, the mount effect ends in the SyntaxError.
\<close>

theorem AdminBlog_mount_malformed_throws:
  assumes "localStorage w blogPosts_key = Some s" "s \<noteq> []" "JSON_parse rt s = None"
  shows "AdminBlog_mount rt w = Inl SyntaxError"
  using assms by (simp add: AdminBlog_mount_def Let_def)

text \<open>The stored text \<open>{\<close> is such a value.\<close>

theorem AdminBlog_mount_malformed_throws_witness:
  "localStorage (AdminBlog_init malformed_storage) blogPosts_key = Some (js ''{'')
   \<and> js ''{'' \<noteq> []
   \<and> JSON_parse sample_runtime (js ''{'') = None
   \<and> AdminBlog_mount sample_runtime (AdminBlog_init malformed_storage) = Inl SyntaxError"
proof -
  have a: "localStorage (AdminBlog_init malformed_storage) blogPosts_key = Some (js ''{'')"
    by (simp add: AdminBlog_init_def malformed_storage_def)
  have b: "js ''{'' \<noteq> []" by (simp add: js_def)
  have c: "JSON_parse sample_runtime (js ''{'') = None"
    by (simp add: sample_runtime_def js_def)
  from a b c AdminBlog_mount_malformed_throws [OF a b c] show ?thesis by blast
qed

lemma AdminBlog_mount_absent_or_empty:
  assumes "localStorage w blogPosts_key = None \<or> localStorage w blogPosts_key = Some []"
  shows "AdminBlog_mount rt w = Inr (w\<lparr>blogCalls := blogCalls w @ [StorageGetItem blogPosts_key]\<rparr>)"
  using assms by (auto simp: AdminBlog_mount_def Let_def)

section \<open>The image with a fallback\<close>

lemma Image_step_keeps_flag: "has_errored i \<Longrightarrow> has_errored (Image_step i e)"
  by (cases e) (simp_all split: handler.splits)

lemma Image_run_keeps_flag: "has_errored i \<Longrightarrow> has_errored (Image_run i es)"
  unfolding Image_run_def
  by (induction es arbitrary: i) (simp_all add: Image_step_keeps_flag)

lemma Image_run_Cons: "Image_run i (e # es) = Image_run (Image_step i e) es"
  by (simp add: Image_run_def)

lemma Image_rendered_errored:
  "has_errored i \<Longrightarrow>
     img_src (Image_rendered i) =
       Some (case fallback (props i) of None \<Rightarrow> default_fallback | Some f \<Rightarrow> f)"
  by (simp add: Image_rendered_def Image_def Let_def)

lemma Image_own_handler_sets_flag:
  "rest_onError (props i) = None \<Longrightarrow> has_errored (Image_step i LoadFailure)"
  by (simp add: Image_rendered_def Image_def Let_def)

lemma Image_run_same_props: "props (Image_run i (replicate n (Rerender (props i)))) = props i"
  unfolding Image_run_def
  by (induction n arbitrary: i) simp_all

lemma Image_step_LoadFailure_props: "props (Image_step i LoadFailure) = props i"
  by (simp split: handler.splits)

text \<open>
  C9, as stated, fails on an instance whose caller passes an \<open>onError\<close> of its
  own: the spread attributes come last, the caller's handler replaces the
  component's, and after a load failure the flag is still unset and the render
  still uses the original source.
\<close>

theorem Image_forwarded_handler_counterexample:
  "src forwarding_props \<noteq> fallback forwarding_props
   \<and> \<not> has_errored (Image_run (Image_mount forwarding_props) [LoadFailure])
   \<and> img_src (Image_rendered (Image_run (Image_mount forwarding_props) [LoadFailure]))
       = src forwarding_props"
  by (simp add: Image_run_def Image_mount_def Image_rendered_def Image_def forwarding_props_def
        Let_def) (simp add: js_def)

text \<open>
  C9, amended: the first render of a mounted instance uses the supplied
  source. For an instance whose caller passes no \<open>onError\<close> of its own, a load
  failure sets the has-errored flag, and after it, whatever re-renders and
  further failures follow, the flag stays set and the render uses the fallback
  source (the configured one, or the default), not the supplied one.
\<close>

theorem Image_fallback_after_failure:
  assumes "rest_onError (props i) = None"
  shows "img_src (Image_rendered (Image_mount p)) = src p
       \<and> has_errored (Image_run i (LoadFailure # es))
       \<and> img_src (Image_rendered (Image_run i (LoadFailure # es)))
           = Some (case fallback (props (Image_run i (LoadFailure # es))) of
                     None \<Rightarrow> default_fallback | Some f \<Rightarrow> f)"
proof -
  have first: "img_src (Image_rendered (Image_mount p)) = src p"
    by (simp add: Image_rendered_def Image_mount_def Image_def Let_def)
  have "has_errored (Image_step i LoadFailure)"
    using assms by (rule Image_own_handler_sets_flag)
  then have flag: "has_errored (Image_run i (LoadFailure # es))"
    unfolding Image_run_Cons by (rule Image_run_keeps_flag)
  from first flag Image_rendered_errored [OF flag] show ?thesis by blast
qed

text \<open>The amended C9 at an instance that fails, is rendered again, fails and is rendered again.\<close>

theorem Image_fallback_after_failure_witness:
  "rest_onError (props (Image_mount plain_props)) = None
   \<and> img_src (Image_rendered (Image_mount plain_props)) = Some (js ''/images/a.png'')
   \<and> img_src (Image_rendered (Image_run (Image_mount plain_props)
        [LoadFailure, Rerender plain_props, LoadFailure, Rerender plain_props]))
       = Some (js ''/images/b.png'')"
proof -
  have h: "rest_onError (props (Image_mount plain_props)) = None"
    by (simp add: Image_mount_def plain_props_def)
  have same: "props (Image_run (Image_mount plain_props)
        [LoadFailure, Rerender plain_props, LoadFailure, Rerender plain_props]) = plain_props"
    by (simp add: Image_run_def split: handler.splits)
  from Image_fallback_after_failure [OF h, of plain_props
      "[Rerender plain_props, LoadFailure, Rerender plain_props]"] h
  show ?thesis by (simp add: same) (simp add: plain_props_def)
qed

text \<open>
  C10, as stated, fails in the same way: with no fallback and an \<open>onError\<close> of
  the caller's own, the render after a load failure does not use the default
  fallback source.
\<close>

theorem Image_default_unused_counterexample:
  "fallback forwarding_props_no_fallback = None
   \<and> img_src (Image_rendered (Image_run (Image_mount forwarding_props_no_fallback) [LoadFailure]))
       \<noteq> Some (js ''/images/placeholder.png'')"
  by (simp add: Image_run_def Image_mount_def Image_rendered_def Image_def
        forwarding_props_no_fallback_def Let_def) (simp add: js_def)

text \<open>
  C10, amended: when the caller supplies no fallback and no \<open>onError\<close> of its
  own, the render after a load failure, and after any number of re-renders with
  the same props, uses \<open>/images/placeholder.png\<close>.
\<close>

theorem Image_default_fallback:
  assumes "fallback p = None" "rest_onError p = None"
  shows "img_src (Image_rendered
           (Image_run (Image_mount p) (LoadFailure # replicate n (Rerender p))))
         = Some (js ''/images/placeholder.png'')"
proof -
  let ?i = "Image_step (Image_mount p) LoadFailure"
  have mounted: "props (Image_mount p) = p"
    by (simp add: Image_mount_def)
  have "props ?i = props (Image_mount p)"
    by (rule Image_step_LoadFailure_props)
  also note mounted
  finally have p: "props ?i = p" .
  have "rest_onError (props (Image_mount p)) = None"
    using assms(2) mounted by simp
  then have "has_errored ?i"
    by (rule Image_own_handler_sets_flag)
  then have flag: "has_errored (Image_run ?i (replicate n (Rerender p)))"
    by (rule Image_run_keeps_flag)
  have "props (Image_run ?i (replicate n (Rerender p))) = p"
    using Image_run_same_props [of ?i n] p by simp
  with Image_rendered_errored [OF flag] assms(1) show ?thesis
    by (simp add: Image_run_Cons default_fallback_def)
qed

text \<open>The amended C10 at an instance that fails and is rendered again.\<close>

theorem Image_default_fallback_witness:
  "fallback plain_props_no_fallback = None \<and> rest_onError plain_props_no_fallback = None
   \<and> img_src (Image_rendered (Image_run (Image_mount plain_props_no_fallback)
        [LoadFailure, Rerender plain_props_no_fallback]))
       = Some (js ''/images/placeholder.png'')"
proof -
  have a: "fallback plain_props_no_fallback = None"
    and b: "rest_onError plain_props_no_fallback = None"
    by (simp_all add: plain_props_no_fallback_def)
  from Image_default_fallback [OF a b, of 1] a b show ?thesis by simp
qed

end
